theory Spec2Isabelle
  imports Main
begin

section \<open>Data model of RequestPage.tsx\<close>

text \<open>
  The request page of the Gnosis Safe app (\<^verbatim>\<open>packages/gnosis-safe/src/containers/RequestPage.tsx\<close>)
  reads a parsed request, the connected account and the safe information from React hooks and
  offers two operations, \<^verbatim>\<open>pay\<close> and \<^verbatim>\<open>cancel\<close>. Both are glue over functions of external
  packages. Those functions are parameters of the model (the records \<open>pay_env\<close> and
  \<open>cancel_env\<close>); every call of one may throw, so each returns a sum whose \<open>Inl\<close> is the
  thrown value.
\<close>

text \<open>\<^verbatim>\<open>request.raw.currencyInfo\<close>: the tag \<^verbatim>\<open>type\<close> is compared with string literals by
  the code, so it is a string here; \<^verbatim>\<open>network\<close> is optional.\<close>

record currency_info =
  ci_type :: string
  ci_value :: string
  ci_network :: "string option"

text \<open>\<^verbatim>\<open>request.raw\<close>: the page reads \<^verbatim>\<open>currencyInfo\<close> only; the rest of the request data is
  passed to the collaborators untouched.\<close>

record request_data =
  currencyInfo :: currency_info
  expectedAmount :: string

text \<open>\<^verbatim>\<open>IParsedRequest\<close>, the fields the page's logic reads.\<close>

record parsed_request =
  requestId :: string
  payee :: string
  payer :: "string option"
  paymentAddress :: string
  status :: string
  raw :: request_data

record safe_info =
  safeAddress :: string

text \<open>The \<^verbatim>\<open>value\<close> of a transaction is the number \<^verbatim>\<open>0\<close> in the ERC20 steps and a string
  in the ETH step (\<^verbatim>\<open>txs\<close> is \<^verbatim>\<open>any[]\<close>).\<close>

datatype js_value = Num int | Str string

record tx =
  tx_to :: string
  tx_value :: js_value
  tx_data :: string

section \<open>Effects\<close>

text \<open>Every call that leaves \<^verbatim>\<open>pay\<close> is recorded, in order, with its arguments.\<close>

datatype event =
    Alert string
  | HasSufficientFunds request_data string
  | HasErc20Approval request_data string
  | EncodeApproveErc20 request_data
  | Erc20ProxyGetAddress "string option"
  | EncodePayErc20Request request_data
  | EthereumProxyGetAddress "string option"
  | GetAmountToPay request_data
  | EncodePayEthProxyRequest request_data
  | SendTransactions "tx list"

text \<open>The local array \<^verbatim>\<open>txs\<close> and the calls made so far.\<close>

record pay_state =
  txs :: "tx list"
  trace :: "event list"

text \<open>How a statement ends: it falls through to the next one, it executes \<^verbatim>\<open>return\<close>, or a
  call inside it throws.\<close>

datatype 'e completion = Normal | Return | Throw 'e

type_synonym 'e stmt = "pay_state \<Rightarrow> pay_state \<times> 'e completion"

definition skip :: "'e stmt" where
  "skip st = (st, Normal)"

definition ret :: "'e stmt" where
  "ret st = (st, Return)"

definition seq :: "'e stmt \<Rightarrow> 'e stmt \<Rightarrow> 'e stmt" where
  "seq s1 s2 st =
     (case s1 st of
        (st', Normal) \<Rightarrow> s2 st'
      | (st', Return) \<Rightarrow> (st', Return)
      | (st', Throw e) \<Rightarrow> (st', Throw e))"

definition alert :: "string \<Rightarrow> 'e stmt" where
  "alert msg st = (st\<lparr>trace := trace st @ [Alert msg]\<rparr>, Normal)"

definition push :: "tx \<Rightarrow> 'e stmt" where
  "push t st = (st\<lparr>txs := txs st @ [t]\<rparr>, Normal)"

text \<open>A call of a collaborator: it is recorded, then its value is handed to the rest of the
  statement, or what it threw ends the statement.\<close>

definition call :: "event \<Rightarrow> 'e + 'a \<Rightarrow> ('a \<Rightarrow> 'e stmt) \<Rightarrow> 'e stmt" where
  "call ev r k st =
     (case r of
        Inl e \<Rightarrow> (st\<lparr>trace := trace st @ [ev]\<rparr>, Throw e)
      | Inr v \<Rightarrow> k v (st\<lparr>trace := trace st @ [ev]\<rparr>))"

section \<open>Collaborators of pay\<close>

record 'e pay_env =
  hasSufficientFunds :: "request_data \<Rightarrow> string \<Rightarrow> 'e + bool"
  hasErc20Approval :: "request_data \<Rightarrow> string \<Rightarrow> 'e + bool"
  encodeApproveErc20 :: "request_data \<Rightarrow> 'e + string"
  encodePayErc20Request :: "request_data \<Rightarrow> 'e + string"
  encodePayEthProxyRequest :: "request_data \<Rightarrow> 'e + string"
  erc20ProxyArtifact_getAddress :: "string option \<Rightarrow> 'e + string"
  ethereumProxyArtifact_getAddress :: "string option \<Rightarrow> 'e + string"
  getAmountToPay :: "request_data \<Rightarrow> 'e + int"

text \<open>\<^verbatim>\<open>getAmountToPay(request.raw).toString()\<close>: the amount is a big number, an unbounded
  integer; \<^verbatim>\<open>toString\<close> writes it in decimal, a minus sign first when it is negative.\<close>

definition digit_char :: "nat \<Rightarrow> char" where
  "digit_char d = char_of (48 + d)"

fun nat_toString :: "nat \<Rightarrow> string" where
  "nat_toString n =
     (if n < 10 then [digit_char n] else nat_toString (n div 10) @ [digit_char (n mod 10)])"

declare nat_toString.simps [simp del]

definition bigNumber_toString :: "int \<Rightarrow> string" where
  "bigNumber_toString i =
     (if i < 0 then CHR ''-'' # nat_toString (nat (- i)) else nat_toString (nat i))"

section \<open>pay\<close>

text \<open>The four \<^verbatim>\<open>if\<close> statements of \<^verbatim>\<open>pay\<close> on \<^verbatim>\<open>request.raw.currencyInfo.type\<close>, in the
  order of the source. In an object literal the properties are evaluated in the order
  written: the proxy address is resolved before the payload is encoded.\<close>

definition erc20_block :: "'e pay_env \<Rightarrow> parsed_request \<Rightarrow> safe_info \<Rightarrow> 'e stmt" where
  "erc20_block env request safeInfo =
     (if ci_type (currencyInfo (raw request)) = ''ERC20'' then
        call (HasSufficientFunds (raw request) (safeAddress safeInfo))
             (hasSufficientFunds env (raw request) (safeAddress safeInfo))
          (\<lambda>funds.
             if \<not> funds then seq (alert ''Insufficient funds'') ret
             else
               seq
                 (call (HasErc20Approval (raw request) (safeAddress safeInfo))
                       (hasErc20Approval env (raw request) (safeAddress safeInfo))
                    (\<lambda>approval.
                       if \<not> approval then
                         call (EncodeApproveErc20 (raw request))
                              (encodeApproveErc20 env (raw request))
                           (\<lambda>d. push \<lparr>tx_to = ci_value (currencyInfo (raw request)),
                                       tx_value = Num 0,
                                       tx_data = d\<rparr>)
                       else skip))
                 (call (Erc20ProxyGetAddress (ci_network (currencyInfo (raw request))))
                       (erc20ProxyArtifact_getAddress env (ci_network (currencyInfo (raw request))))
                    (\<lambda>a.
                       call (EncodePayErc20Request (raw request))
                            (encodePayErc20Request env (raw request))
                         (\<lambda>d. push \<lparr>tx_to = a, tx_value = Num 0, tx_data = d\<rparr>))))
      else skip)"

definition eth_block :: "'e pay_env \<Rightarrow> parsed_request \<Rightarrow> safe_info \<Rightarrow> 'e stmt" where
  "eth_block env request safeInfo =
     (if ci_type (currencyInfo (raw request)) = ''ETH'' then
        call (HasSufficientFunds (raw request) (safeAddress safeInfo))
             (hasSufficientFunds env (raw request) (safeAddress safeInfo))
          (\<lambda>funds.
             if \<not> funds then seq (alert ''Insufficient funds'') ret
             else
               call (EthereumProxyGetAddress (ci_network (currencyInfo (raw request))))
                    (ethereumProxyArtifact_getAddress env (ci_network (currencyInfo (raw request))))
                 (\<lambda>a.
                    call (GetAmountToPay (raw request)) (getAmountToPay env (raw request))
                      (\<lambda>amount.
                         call (EncodePayEthProxyRequest (raw request))
                              (encodePayEthProxyRequest env (raw request))
                           (\<lambda>d. push \<lparr>tx_to = a,
                                       tx_value = Str (bigNumber_toString amount),
                                       tx_data = d\<rparr>))))
      else skip)"

definition btc_block :: "parsed_request \<Rightarrow> 'e stmt" where
  "btc_block request =
     (if ci_type (currencyInfo (raw request)) = ''BTC''
      then seq (alert ''not implemented'') ret else skip)"

definition iso4217_block :: "parsed_request \<Rightarrow> 'e stmt" where
  "iso4217_block request =
     (if ci_type (currencyInfo (raw request)) = ''ISO4217''
      then seq (alert ''not implemented'') ret else skip)"

text \<open>\<^verbatim>\<open>appsSdk?.sendTransactions(txs)\<close>: nothing happens when the SDK is absent. When it is
  there, \<^verbatim>\<open>sendTransactions\<close> is one more call that may throw; it is not awaited, so only
  what it throws on the spot reaches \<^verbatim>\<open>pay\<close>.\<close>

definition send :: "(tx list \<Rightarrow> 'e + unit) option \<Rightarrow> 'e stmt" where
  "send appsSdk st =
     (case appsSdk of
        None \<Rightarrow> (st, Normal)
      | Some sendTransactions \<Rightarrow>
          call (SendTransactions (txs st)) (sendTransactions (txs st)) (\<lambda>_. skip) st)"

text \<open>\<^verbatim>\<open>pay\<close> starts with an empty \<^verbatim>\<open>txs\<close>. \<^verbatim>\<open>request\<close> and \<^verbatim>\<open>safeInfo\<close> come from hooks and
  may be undefined, and so may \<open>appsSdk\<close>, given here by its \<^verbatim>\<open>sendTransactions\<close>.\<close>

definition pay ::
  "'e pay_env \<Rightarrow> parsed_request option \<Rightarrow> safe_info option
     \<Rightarrow> (tx list \<Rightarrow> 'e + unit) option \<Rightarrow> pay_state \<times> 'e completion"
  where
  "pay env request safeInfo appsSdk =
     (case request of
        None \<Rightarrow> seq (alert ''Request not found'') ret
      | Some r \<Rightarrow>
          (case safeInfo of
             None \<Rightarrow> seq (alert ''Safe Info not found'') ret
           | Some s \<Rightarrow>
               seq (erc20_block env r s)
                 (seq (eth_block env r s)
                    (seq (btc_block r)
                       (seq (iso4217_block r)
                          (send appsSdk))))))
       \<lparr>txs = [], trace = []\<rparr>"

text \<open>What was handed to the safe: the batches of the \<^verbatim>\<open>sendTransactions\<close> calls.\<close>

fun submitted :: "event list \<Rightarrow> tx list list" where
  "submitted [] = []"
| "submitted (SendTransactions b # es) = b # submitted es"
| "submitted (_ # es) = submitted es"

text \<open>The calls that receive the payer's address.\<close>

fun is_oracle_query :: "event \<Rightarrow> bool" where
  "is_oracle_query (HasSufficientFunds _ _) = True"
| "is_oracle_query (HasErc20Approval _ _) = True"
| "is_oracle_query _ = False"

section \<open>cancel\<close>

text \<open>A thrown value: an \<^verbatim>\<open>Error\<close> object made with \<^verbatim>\<open>new Error(message)\<close>, or any other
  value.\<close>

datatype 'e thrown = Error string | Thrown 'e

record 'e cancel_env =
  cancelRequest :: "string \<Rightarrow> string \<Rightarrow> int \<Rightarrow> 'e thrown + unit"
  isCancelError :: "'e thrown \<Rightarrow> bool"
  update :: "'e thrown + unit"

datatype 'e cancel_event =
    CancelRequest string string int
  | IsCancelError "'e thrown"
  | Update

definition notReady :: "'e cancel_event list \<times> ('e thrown + unit)" where
  "notReady = ([], Inl (Error ''cannot cancel because page is not ready''))"

text \<open>\<^verbatim>\<open>!account\<close> holds of the empty string too, and \<^verbatim>\<open>!chainId\<close> of the number 0.
  The result is the calls made and how the promise settles: \<open>Inl\<close> is a rejection.\<close>

definition cancel ::
  "'e cancel_env \<Rightarrow> parsed_request option \<Rightarrow> string option \<Rightarrow> int option
     \<Rightarrow> 'e cancel_event list \<times> ('e thrown + unit)"
  where
  "cancel env request account chainId =
     (case request of
        None \<Rightarrow> notReady
      | Some r \<Rightarrow>
          (case account of
             None \<Rightarrow> notReady
           | Some a \<Rightarrow>
               if a = [] then notReady
               else
                 (case chainId of
                    None \<Rightarrow> notReady
                  | Some c \<Rightarrow>
                      if c = 0 then notReady
                      else
                        (case cancelRequest env (requestId r) a c of
                           Inr _ \<Rightarrow> ([CancelRequest (requestId r) a c, Update], update env)
                         | Inl e \<Rightarrow>
                             if \<not> isCancelError env e
                             then ([CancelRequest (requestId r) a c, IsCancelError e, Update],
                                   update env)
                             else ([CancelRequest (requestId r) a c, IsCancelError e],
                                   Inl e)))))"

section \<open>Address comparisons\<close>

text \<open>\<^verbatim>\<open>String.prototype.toLowerCase\<close> on the characters of a chain address: the letters
  \<^verbatim>\<open>A\<close> to \<^verbatim>\<open>Z\<close> become \<^verbatim>\<open>a\<close> to \<^verbatim>\<open>z\<close>, every other character of the ASCII range stays.\<close>

definition toLowerCase_char :: "char \<Rightarrow> char" where
  "toLowerCase_char c =
     (if 65 \<le> (of_char c :: nat) \<and> (of_char c :: nat) \<le> 90
      then char_of ((of_char c :: nat) + 32) else c)"

definition toLowerCase :: "string \<Rightarrow> string" where
  "toLowerCase s = map toLowerCase_char s"

text \<open>The five flags computed by \<^verbatim>\<open>Body\<close>. \<^verbatim>\<open>!!account\<close> is false of an absent account and
  of the empty string; \<^verbatim>\<open>request?.payee\<close> is undefined when the request is, and no string
  is strictly equal to undefined.\<close>

definition isAccountPayee :: "string option \<Rightarrow> parsed_request option \<Rightarrow> bool" where
  "isAccountPayee account request =
     (case account of
        None \<Rightarrow> False
      | Some a \<Rightarrow> a \<noteq> [] \<and>
          (case request of None \<Rightarrow> False | Some r \<Rightarrow> toLowerCase a = payee r))"

definition isAccountPayer :: "string option \<Rightarrow> parsed_request option \<Rightarrow> bool" where
  "isAccountPayer account request =
     (case account of
        None \<Rightarrow> False
      | Some a \<Rightarrow> a \<noteq> [] \<and>
          (case request of None \<Rightarrow> False | Some r \<Rightarrow> Some (toLowerCase a) = payer r))"

definition isSmartContractPayee :: "string option \<Rightarrow> parsed_request option \<Rightarrow> bool" where
  "isSmartContractPayee smartContractAddress request =
     (case smartContractAddress of
        None \<Rightarrow> False
      | Some a \<Rightarrow> a \<noteq> [] \<and>
          (case request of None \<Rightarrow> False | Some r \<Rightarrow> toLowerCase a = payee r))"

definition isSmartContractPayer :: "string option \<Rightarrow> parsed_request option \<Rightarrow> bool" where
  "isSmartContractPayer smartContractAddress request =
     (case smartContractAddress of
        None \<Rightarrow> False
      | Some a \<Rightarrow> a \<noteq> [] \<and>
          (case request of None \<Rightarrow> False | Some r \<Rightarrow> Some (toLowerCase a) = payer r))"

definition isPaymentAddressSmartContract ::
  "string option \<Rightarrow> parsed_request option \<Rightarrow> bool" where
  "isPaymentAddressSmartContract smartContractAddress request =
     (case request of
        None \<Rightarrow> False
      | Some r \<Rightarrow>
          (case smartContractAddress of
             None \<Rightarrow> False
           | Some a \<Rightarrow> a \<noteq> [] \<and> toLowerCase a = toLowerCase (paymentAddress r)))"

text \<open>The condition under which \<^verbatim>\<open>Actions\<close> offers "Pay now" (the request is present
  there): \<^verbatim>\<open>request.payer\<close> is truthy and equals, both sides in lower case, the safe's
  address or the account. An absent address gives undefined, equal to no string.\<close>

definition actions_payer_matches ::
  "parsed_request \<Rightarrow> string option \<Rightarrow> string option \<Rightarrow> bool" where
  "actions_payer_matches request smartContractAddress account =
     (case payer request of
        None \<Rightarrow> False
      | Some p \<Rightarrow> p \<noteq> [] \<and>
          (Some (toLowerCase p) = map_option toLowerCase smartContractAddress \<or>
           Some (toLowerCase p) = map_option toLowerCase account))"

section \<open>Concrete collaborators and inputs\<close>

text \<open>Oracles with fixed answers, encoders that return a selector, and registries that know
  one network and throw on any other.\<close>

definition test_env :: "bool \<Rightarrow> bool \<Rightarrow> string pay_env" where
  "test_env funds approval =
     \<lparr>hasSufficientFunds = (\<lambda>_ _. Inr funds),
      hasErc20Approval = (\<lambda>_ _. Inr approval),
      encodeApproveErc20 = (\<lambda>_. Inr ''0x095ea7b3''),
      encodePayErc20Request = (\<lambda>_. Inr ''0x0784bca3''),
      encodePayEthProxyRequest = (\<lambda>_. Inr ''0xeb7d8df3''),
      erc20ProxyArtifact_getAddress =
        (\<lambda>n. if n = Some ''mainnet'' then Inr ''0xERC20PROXY'' else Inl ''No deployment''),
      ethereumProxyArtifact_getAddress =
        (\<lambda>n. if n = Some ''mainnet'' then Inr ''0xETHPROXY'' else Inl ''No deployment''),
      getAmountToPay = (\<lambda>_. Inr 500)\<rparr>"

definition test_raw :: "string \<Rightarrow> request_data" where
  "test_raw kind =
     \<lparr>currencyInfo = \<lparr>ci_type = kind, ci_value = ''0xTOKEN'', ci_network = Some ''mainnet''\<rparr>,
      expectedAmount = ''500''\<rparr>"

definition test_request :: "string \<Rightarrow> parsed_request" where
  "test_request kind =
     \<lparr>requestId = ''01abc'', payee = ''0xab'', payer = Some ''0xcd'',
      paymentAddress = ''0xAB'', status = ''open'', raw = test_raw kind\<rparr>"

definition test_safe :: safe_info where
  "test_safe = \<lparr>safeAddress = ''0xSAFE''\<rparr>"

text \<open>A \<^verbatim>\<open>cancelRequest\<close> that throws the value 4001, recognised or not by
  \<^verbatim>\<open>isCancelError\<close>, and an \<^verbatim>\<open>update\<close> that succeeds.\<close>

definition test_cancel_env :: "bool \<Rightarrow> int cancel_env" where
  "test_cancel_env recognised =
     \<lparr>cancelRequest = (\<lambda>_ _ _. Inl (Thrown 4001)),
      isCancelError = (\<lambda>e. recognised \<and> e = Thrown 4001),
      update = Inr ()\<rparr>"

definition other_safe :: safe_info where
  "other_safe = \<lparr>safeAddress = ''0xOTHER''\<rparr>"

text \<open>An SDK that takes any batch, and one that throws when the batch is empty.\<close>

definition test_sdk :: "tx list \<Rightarrow> string + unit" where
  "test_sdk b = Inr ()"

definition strict_sdk :: "tx list \<Rightarrow> string + unit" where
  "strict_sdk b = (if b = [] then Inl ''no transactions'' else Inr ())"

section \<open>Auxiliary notions for the proofs\<close>

text \<open>Reading a decimal string back, to check \<open>nat_toString\<close> against.\<close>

definition digit_value :: "char \<Rightarrow> nat" where
  "digit_value c = of_char c - 48"

definition decimal_value :: "string \<Rightarrow> nat" where
  "decimal_value s = foldl (\<lambda>n c. 10 * n + digit_value c) 0 s"

text \<open>A trace with the two oracle queries left out.\<close>

definition without_oracle_queries :: "event list \<Rightarrow> event list" where
  "without_oracle_queries es = filter (\<lambda>e. \<not> is_oracle_query e) es"

text \<open>Two states agree when they hold the same \<^verbatim>\<open>txs\<close> and their traces differ in oracle
  queries only; two statements correspond when, from states that agree, they end the same way
  in states that agree.\<close>

definition agree :: "pay_state \<Rightarrow> pay_state \<Rightarrow> bool" where
  "agree st1 st2 =
     (txs st1 = txs st2 \<and>
      without_oracle_queries (trace st1) = without_oracle_queries (trace st2))"

definition corr :: "'e stmt \<Rightarrow> 'e stmt \<Rightarrow> bool" where
  "corr p q =
     (\<forall>st1 st2. agree st1 st2 \<longrightarrow>
        agree (fst (p st1)) (fst (q st2)) \<and> snd (p st1) = snd (q st2))"

section \<open>Statements and blocks\<close>

lemmas stmt_defs = seq_def call_def alert_def ret_def skip_def push_def

lemmas test_defs = test_env_def test_request_def test_raw_def test_safe_def other_safe_def
  test_sdk_def strict_sdk_def

lemma seq_Normal: "s1 st = (st', Normal) \<Longrightarrow> seq s1 s2 st = s2 st'"
  by (simp add: seq_def)

lemma seq_Return: "s1 st = (st', Return) \<Longrightarrow> seq s1 s2 st = (st', Return)"
  by (simp add: seq_def)

lemma seq_Throw: "s1 st = (st', Throw e) \<Longrightarrow> seq s1 s2 st = (st', Throw e)"
  by (simp add: seq_def)

text \<open>A block whose kind is not the request's leaves the state as it is.\<close>

lemma erc20_block_other_kind:
  "ci_type (currencyInfo (raw r)) \<noteq> ''ERC20'' \<Longrightarrow> erc20_block env r s st = (st, Normal)"
  by (simp add: erc20_block_def skip_def)

lemma eth_block_other_kind:
  "ci_type (currencyInfo (raw r)) \<noteq> ''ETH'' \<Longrightarrow> eth_block env r s st = (st, Normal)"
  by (simp add: eth_block_def skip_def)

lemma btc_block_other_kind:
  "ci_type (currencyInfo (raw r)) \<noteq> ''BTC'' \<Longrightarrow> btc_block r st = (st, Normal)"
  by (simp add: btc_block_def skip_def)

lemma iso4217_block_other_kind:
  "ci_type (currencyInfo (raw r)) \<noteq> ''ISO4217'' \<Longrightarrow> iso4217_block r st = (st, Normal)"
  by (simp add: iso4217_block_def skip_def)

text \<open>The ERC20 block from any state, by the answers of the two oracles.\<close>

lemma erc20_block_insufficient_funds:
  assumes "ci_type (currencyInfo (raw r)) = ''ERC20''"
    and "hasSufficientFunds env (raw r) (safeAddress s) = Inr False"
  shows "erc20_block env r s st =
    (st\<lparr>trace := trace st @
         [HasSufficientFunds (raw r) (safeAddress s), Alert ''Insufficient funds'']\<rparr>,
     Return)"
  using assms by (simp add: erc20_block_def stmt_defs)

lemma erc20_block_approve_and_pay:
  assumes "ci_type (currencyInfo (raw r)) = ''ERC20''"
    and "hasSufficientFunds env (raw r) (safeAddress s) = Inr True"
    and "hasErc20Approval env (raw r) (safeAddress s) = Inr False"
    and "encodeApproveErc20 env (raw r) = Inr approveData"
    and "erc20ProxyArtifact_getAddress env (ci_network (currencyInfo (raw r))) = Inr proxy"
    and "encodePayErc20Request env (raw r) = Inr payData"
  shows "erc20_block env r s st =
    (st\<lparr>txs := txs st @
         [\<lparr>tx_to = ci_value (currencyInfo (raw r)), tx_value = Num 0, tx_data = approveData\<rparr>,
          \<lparr>tx_to = proxy, tx_value = Num 0, tx_data = payData\<rparr>],
        trace := trace st @
         [HasSufficientFunds (raw r) (safeAddress s),
          HasErc20Approval (raw r) (safeAddress s),
          EncodeApproveErc20 (raw r),
          Erc20ProxyGetAddress (ci_network (currencyInfo (raw r))),
          EncodePayErc20Request (raw r)]\<rparr>,
     Normal)"
  using assms by (simp add: erc20_block_def stmt_defs)

lemma erc20_block_pay:
  assumes "ci_type (currencyInfo (raw r)) = ''ERC20''"
    and "hasSufficientFunds env (raw r) (safeAddress s) = Inr True"
    and "hasErc20Approval env (raw r) (safeAddress s) = Inr True"
    and "erc20ProxyArtifact_getAddress env (ci_network (currencyInfo (raw r))) = Inr proxy"
    and "encodePayErc20Request env (raw r) = Inr payData"
  shows "erc20_block env r s st =
    (st\<lparr>txs := txs st @ [\<lparr>tx_to = proxy, tx_value = Num 0, tx_data = payData\<rparr>],
        trace := trace st @
         [HasSufficientFunds (raw r) (safeAddress s),
          HasErc20Approval (raw r) (safeAddress s),
          Erc20ProxyGetAddress (ci_network (currencyInfo (raw r))),
          EncodePayErc20Request (raw r)]\<rparr>,
     Normal)"
  using assms by (simp add: erc20_block_def stmt_defs)

text \<open>A collaborator that throws ends the block there: the registry, for a network it
  does not know.\<close>

lemma erc20_block_registry_throws:
  assumes "ci_type (currencyInfo (raw r)) = ''ERC20''"
    and "hasSufficientFunds env (raw r) (safeAddress s) = Inr True"
    and "hasErc20Approval env (raw r) (safeAddress s) = Inr True"
    and "erc20ProxyArtifact_getAddress env (ci_network (currencyInfo (raw r))) = Inl e"
  shows "erc20_block env r s st =
    (st\<lparr>trace := trace st @
         [HasSufficientFunds (raw r) (safeAddress s),
          HasErc20Approval (raw r) (safeAddress s),
          Erc20ProxyGetAddress (ci_network (currencyInfo (raw r)))]\<rparr>,
     Throw e)"
  using assms by (simp add: erc20_block_def stmt_defs)

text \<open>The ETH block from any state.\<close>

lemma eth_block_insufficient_funds:
  assumes "ci_type (currencyInfo (raw r)) = ''ETH''"
    and "hasSufficientFunds env (raw r) (safeAddress s) = Inr False"
  shows "eth_block env r s st =
    (st\<lparr>trace := trace st @
         [HasSufficientFunds (raw r) (safeAddress s), Alert ''Insufficient funds'']\<rparr>,
     Return)"
  using assms by (simp add: eth_block_def stmt_defs)

lemma eth_block_pay:
  assumes "ci_type (currencyInfo (raw r)) = ''ETH''"
    and "hasSufficientFunds env (raw r) (safeAddress s) = Inr True"
    and "ethereumProxyArtifact_getAddress env (ci_network (currencyInfo (raw r))) = Inr proxy"
    and "getAmountToPay env (raw r) = Inr amountToPay"
    and "encodePayEthProxyRequest env (raw r) = Inr payData"
  shows "eth_block env r s st =
    (st\<lparr>txs := txs st @
         [\<lparr>tx_to = proxy, tx_value = Str (bigNumber_toString amountToPay),
           tx_data = payData\<rparr>],
        trace := trace st @
         [HasSufficientFunds (raw r) (safeAddress s),
          EthereumProxyGetAddress (ci_network (currencyInfo (raw r))),
          GetAmountToPay (raw r),
          EncodePayEthProxyRequest (raw r)]\<rparr>,
     Normal)"
  using assms by (simp add: eth_block_def stmt_defs)

text \<open>\<^verbatim>\<open>pay\<close> with a request and the safe information, as the five statements in a row.\<close>

lemma pay_present:
  "pay env (Some r) (Some s) appsSdk =
     seq (erc20_block env r s)
       (seq (eth_block env r s)
          (seq (btc_block r)
             (seq (iso4217_block r)
                (send appsSdk)))) \<lparr>txs = [], trace = []\<rparr>"
  by (simp add: pay_def)

section \<open>The decimal rendering of the amount\<close>

lemma digit_value_digit_char: "d < 10 \<Longrightarrow> digit_value (digit_char d) = d"
  by (simp add: digit_value_def digit_char_def)

lemma decimal_value_snoc:
  "decimal_value (s @ [c]) = 10 * decimal_value s + digit_value c"
  by (simp add: decimal_value_def)

lemma decimal_value_nat_toString: "decimal_value (nat_toString n) = n"
proof (induction n rule: nat_toString.induct)
  case (1 n)
  show ?case
  proof (cases "n < 10")
    case True
    then have "nat_toString n = [digit_char n]"
      by (simp add: nat_toString.simps)
    with True show ?thesis
      by (simp add: decimal_value_def digit_value_digit_char)
  next
    case False
    then have "nat_toString n = nat_toString (n div 10) @ [digit_char (n mod 10)]"
      by (simp add: nat_toString.simps)
    moreover from False have "decimal_value (nat_toString (n div 10)) = n div 10"
      by (rule "1.IH")
    ultimately show ?thesis
      by (simp add: decimal_value_snoc digit_value_digit_char)
  qed
qed

lemma nat_toString_inject: "nat_toString m = nat_toString n \<Longrightarrow> m = n"
  by (metis decimal_value_nat_toString)

lemma bigNumber_toString_500: "bigNumber_toString 500 = ''500''"
  by (simp add: bigNumber_toString_def nat_toString.simps digit_char_def char_of_def
      bit_Suc_0_iff)

section \<open>Routing of a payment\<close>

text \<open>
  C1. For an ERC20 request whose payer has the funds and whose allowance is insufficient
  (the encoders and the registry returning), \<^verbatim>\<open>pay\<close> assembles exactly two steps: first the
  approval, sent to the token contract with value 0 and the approve payload, then the payment,
  sent to the ERC20 proxy resolved for the request's network. The batch is handed to the
  safe when the SDK is there, and \<^verbatim>\<open>pay\<close> throws only what that call throws. The calls are
  made in the order of the trace.
\<close>

theorem erc20_approve_then_pay:
  assumes "ci_type (currencyInfo (raw r)) = ''ERC20''"
    and "hasSufficientFunds env (raw r) (safeAddress s) = Inr True"
    and "hasErc20Approval env (raw r) (safeAddress s) = Inr False"
    and "encodeApproveErc20 env (raw r) = Inr approveData"
    and "erc20ProxyArtifact_getAddress env (ci_network (currencyInfo (raw r))) = Inr proxy"
    and "encodePayErc20Request env (raw r) = Inr payData"
  shows "pay env (Some r) (Some s) appsSdk =
    (\<lparr>txs = [\<lparr>tx_to = ci_value (currencyInfo (raw r)), tx_value = Num 0,
               tx_data = approveData\<rparr>,
             \<lparr>tx_to = proxy, tx_value = Num 0, tx_data = payData\<rparr>],
      trace = [HasSufficientFunds (raw r) (safeAddress s),
               HasErc20Approval (raw r) (safeAddress s),
               EncodeApproveErc20 (raw r),
               Erc20ProxyGetAddress (ci_network (currencyInfo (raw r))),
               EncodePayErc20Request (raw r)] @
              (case appsSdk of
                 None \<Rightarrow> []
               | Some sendTransactions \<Rightarrow>
                   [SendTransactions
                      [\<lparr>tx_to = ci_value (currencyInfo (raw r)), tx_value = Num 0,
                        tx_data = approveData\<rparr>,
                       \<lparr>tx_to = proxy, tx_value = Num 0, tx_data = payData\<rparr>]])\<rparr>,
     (case appsSdk of
        None \<Rightarrow> Normal
      | Some sendTransactions \<Rightarrow>
          (case sendTransactions
                  [\<lparr>tx_to = ci_value (currencyInfo (raw r)), tx_value = Num 0,
                    tx_data = approveData\<rparr>,
                   \<lparr>tx_to = proxy, tx_value = Num 0, tx_data = payData\<rparr>] of
             Inl e \<Rightarrow> Throw e
           | Inr _ \<Rightarrow> Normal)))"
proof -
  from assms(1) have eth: "ci_type (currencyInfo (raw r)) \<noteq> ''ETH''"
    and btc: "ci_type (currencyInfo (raw r)) \<noteq> ''BTC''"
    and iso: "ci_type (currencyInfo (raw r)) \<noteq> ''ISO4217''"
    by simp_all
  note block = erc20_block_approve_and_pay [OF assms, of "\<lparr>txs = [], trace = []\<rparr>"]
  show ?thesis
    by (simp add: pay_present seq_def block eth_block_other_kind [OF eth]
        btc_block_other_kind [OF btc] iso4217_block_other_kind [OF iso] send_def call_def
        skip_def split: option.split sum.split)
qed

text \<open>The theorem at the spec's scenario: a token at \<^verbatim>\<open>0xTOKEN\<close>, funds, no allowance.\<close>

theorem erc20_approve_then_pay_witness:
  "pay (test_env True False) (Some (test_request ''ERC20'')) (Some test_safe) (Some test_sdk) =
    (\<lparr>txs = [\<lparr>tx_to = ''0xTOKEN'', tx_value = Num 0, tx_data = ''0x095ea7b3''\<rparr>,
             \<lparr>tx_to = ''0xERC20PROXY'', tx_value = Num 0, tx_data = ''0x0784bca3''\<rparr>],
      trace = [HasSufficientFunds (test_raw ''ERC20'') ''0xSAFE'',
               HasErc20Approval (test_raw ''ERC20'') ''0xSAFE'',
               EncodeApproveErc20 (test_raw ''ERC20''),
               Erc20ProxyGetAddress (Some ''mainnet''),
               EncodePayErc20Request (test_raw ''ERC20''),
               SendTransactions
                 [\<lparr>tx_to = ''0xTOKEN'', tx_value = Num 0, tx_data = ''0x095ea7b3''\<rparr>,
                  \<lparr>tx_to = ''0xERC20PROXY'', tx_value = Num 0,
                    tx_data = ''0x0784bca3''\<rparr>]]\<rparr>,
     Normal)"
  using erc20_approve_then_pay [of "test_request ''ERC20''" "test_env True False" test_safe
      "''0x095ea7b3''" "''0xERC20PROXY''" "''0x0784bca3''" "Some test_sdk"]
  by (simp add: test_defs)

text \<open>
  C2. For an ERC20 request whose payer has the funds and a sufficient allowance (the
  registry and the encoder returning), \<^verbatim>\<open>pay\<close> assembles exactly one step, the payment:
  sent to the ERC20 proxy resolved for the request's network, value 0, the pay payload.
  No approval is encoded and none is in the batch.
\<close>

theorem erc20_pay_only:
  assumes "ci_type (currencyInfo (raw r)) = ''ERC20''"
    and "hasSufficientFunds env (raw r) (safeAddress s) = Inr True"
    and "hasErc20Approval env (raw r) (safeAddress s) = Inr True"
    and "erc20ProxyArtifact_getAddress env (ci_network (currencyInfo (raw r))) = Inr proxy"
    and "encodePayErc20Request env (raw r) = Inr payData"
  shows "pay env (Some r) (Some s) appsSdk =
    (\<lparr>txs = [\<lparr>tx_to = proxy, tx_value = Num 0, tx_data = payData\<rparr>],
      trace = [HasSufficientFunds (raw r) (safeAddress s),
               HasErc20Approval (raw r) (safeAddress s),
               Erc20ProxyGetAddress (ci_network (currencyInfo (raw r))),
               EncodePayErc20Request (raw r)] @
              (case appsSdk of
                 None \<Rightarrow> []
               | Some sendTransactions \<Rightarrow>
                   [SendTransactions
                      [\<lparr>tx_to = proxy, tx_value = Num 0, tx_data = payData\<rparr>]])\<rparr>,
     (case appsSdk of
        None \<Rightarrow> Normal
      | Some sendTransactions \<Rightarrow>
          (case sendTransactions [\<lparr>tx_to = proxy, tx_value = Num 0, tx_data = payData\<rparr>] of
             Inl e \<Rightarrow> Throw e
           | Inr _ \<Rightarrow> Normal)))"
proof -
  from assms(1) have eth: "ci_type (currencyInfo (raw r)) \<noteq> ''ETH''"
    and btc: "ci_type (currencyInfo (raw r)) \<noteq> ''BTC''"
    and iso: "ci_type (currencyInfo (raw r)) \<noteq> ''ISO4217''"
    by simp_all
  note block = erc20_block_pay [OF assms, of "\<lparr>txs = [], trace = []\<rparr>"]
  show ?thesis
    by (simp add: pay_present seq_def block eth_block_other_kind [OF eth]
        btc_block_other_kind [OF btc] iso4217_block_other_kind [OF iso] send_def call_def
        skip_def split: option.split sum.split)
qed

theorem erc20_pay_only_witness:
  "pay (test_env True True) (Some (test_request ''ERC20'')) (Some test_safe) (Some test_sdk) =
    (\<lparr>txs = [\<lparr>tx_to = ''0xERC20PROXY'', tx_value = Num 0, tx_data = ''0x0784bca3''\<rparr>],
      trace = [HasSufficientFunds (test_raw ''ERC20'') ''0xSAFE'',
               HasErc20Approval (test_raw ''ERC20'') ''0xSAFE'',
               Erc20ProxyGetAddress (Some ''mainnet''),
               EncodePayErc20Request (test_raw ''ERC20''),
               SendTransactions
                 [\<lparr>tx_to = ''0xERC20PROXY'', tx_value = Num 0,
                    tx_data = ''0x0784bca3''\<rparr>]]\<rparr>,
     Normal)"
  using erc20_pay_only [of "test_request ''ERC20''" "test_env True True" test_safe
      "''0xERC20PROXY''" "''0x0784bca3''" "Some test_sdk"]
  by (simp add: test_defs)

text \<open>
  C3. For an ETH request whose payer has the funds (the registry, the amount and the
  encoder returning), \<^verbatim>\<open>pay\<close> assembles exactly one step: its target is the address the
  ETH proxy registry resolves for the request's network, its value is the amount to pay
  written as a decimal string, and its payload is the pay-ETH-proxy encoding of the request.
\<close>

theorem eth_single_step:
  assumes "ci_type (currencyInfo (raw r)) = ''ETH''"
    and "hasSufficientFunds env (raw r) (safeAddress s) = Inr True"
    and "ethereumProxyArtifact_getAddress env (ci_network (currencyInfo (raw r))) = Inr proxy"
    and "getAmountToPay env (raw r) = Inr amountToPay"
    and "encodePayEthProxyRequest env (raw r) = Inr payData"
  shows "pay env (Some r) (Some s) appsSdk =
    (\<lparr>txs = [\<lparr>tx_to = proxy, tx_value = Str (bigNumber_toString amountToPay),
              tx_data = payData\<rparr>],
      trace = [HasSufficientFunds (raw r) (safeAddress s),
               EthereumProxyGetAddress (ci_network (currencyInfo (raw r))),
               GetAmountToPay (raw r),
               EncodePayEthProxyRequest (raw r)] @
              (case appsSdk of
                 None \<Rightarrow> []
               | Some sendTransactions \<Rightarrow>
                   [SendTransactions
                      [\<lparr>tx_to = proxy, tx_value = Str (bigNumber_toString amountToPay),
                        tx_data = payData\<rparr>]])\<rparr>,
     (case appsSdk of
        None \<Rightarrow> Normal
      | Some sendTransactions \<Rightarrow>
          (case sendTransactions
                  [\<lparr>tx_to = proxy, tx_value = Str (bigNumber_toString amountToPay),
                    tx_data = payData\<rparr>] of
             Inl e \<Rightarrow> Throw e
           | Inr _ \<Rightarrow> Normal)))"
proof -
  from assms(1) have erc20: "ci_type (currencyInfo (raw r)) \<noteq> ''ERC20''"
    and btc: "ci_type (currencyInfo (raw r)) \<noteq> ''BTC''"
    and iso: "ci_type (currencyInfo (raw r)) \<noteq> ''ISO4217''"
    by simp_all
  note block = eth_block_pay [OF assms, of "\<lparr>txs = [], trace = []\<rparr>"]
  show ?thesis
    by (simp add: pay_present seq_def erc20_block_other_kind [OF erc20] block
        btc_block_other_kind [OF btc] iso4217_block_other_kind [OF iso] send_def call_def
        skip_def split: option.split sum.split)
qed

text \<open>The theorem at the spec's scenario: 500 to pay on a known network.\<close>

theorem eth_single_step_witness:
  "pay (test_env True True) (Some (test_request ''ETH'')) (Some test_safe) (Some test_sdk) =
    (\<lparr>txs = [\<lparr>tx_to = ''0xETHPROXY'', tx_value = Str ''500'', tx_data = ''0xeb7d8df3''\<rparr>],
      trace = [HasSufficientFunds (test_raw ''ETH'') ''0xSAFE'',
               EthereumProxyGetAddress (Some ''mainnet''),
               GetAmountToPay (test_raw ''ETH''),
               EncodePayEthProxyRequest (test_raw ''ETH''),
               SendTransactions
                 [\<lparr>tx_to = ''0xETHPROXY'', tx_value = Str ''500'',
                    tx_data = ''0xeb7d8df3''\<rparr>]]\<rparr>,
     Normal)"
  using eth_single_step [of "test_request ''ETH''" "test_env True True" test_safe
      "''0xETHPROXY''" 500 "''0xeb7d8df3''" "Some test_sdk"]
  by (simp add: test_defs bigNumber_toString_500)

text \<open>
  C4. For an ERC20 or ETH request whose payer lacks the funds, \<^verbatim>\<open>pay\<close> alerts
  "Insufficient funds" and returns: \<^verbatim>\<open>txs\<close> is empty, the only call made is the funds
  query, and nothing is handed to the safe.
\<close>

theorem pay_insufficient_funds:
  assumes "ci_type (currencyInfo (raw r)) \<in> {''ERC20'', ''ETH''}"
    and "hasSufficientFunds env (raw r) (safeAddress s) = Inr False"
  shows "pay env (Some r) (Some s) appsSdk =
    (\<lparr>txs = [],
      trace = [HasSufficientFunds (raw r) (safeAddress s), Alert ''Insufficient funds'']\<rparr>,
     Return)"
proof (cases "ci_type (currencyInfo (raw r)) = ''ERC20''")
  case True
  note block = erc20_block_insufficient_funds [OF True assms(2), of "\<lparr>txs = [], trace = []\<rparr>"]
  show ?thesis
    by (simp add: pay_present seq_def block)
next
  case False
  with assms(1) have eth: "ci_type (currencyInfo (raw r)) = ''ETH''"
    by simp
  note block = eth_block_insufficient_funds [OF eth assms(2), of "\<lparr>txs = [], trace = []\<rparr>"]
  show ?thesis
    by (simp add: pay_present seq_def erc20_block_other_kind [OF False] block)
qed

theorem pay_insufficient_funds_witness:
  "pay (test_env False False) (Some (test_request ''ETH'')) (Some test_safe) (Some test_sdk) =
    (\<lparr>txs = [],
      trace = [HasSufficientFunds (test_raw ''ETH'') ''0xSAFE'', Alert ''Insufficient funds'']\<rparr>,
     Return)"
  using pay_insufficient_funds [of "test_request ''ETH''" "test_env False False" test_safe
      "Some test_sdk"]
  by (simp add: test_defs)

text \<open>
  C5. For a BTC or ISO4217 request, \<^verbatim>\<open>pay\<close> alerts "not implemented" and returns. The
  alert is the whole trace: no oracle, encoder or registry is called and nothing is handed
  to the safe.
\<close>

theorem pay_unsupported_currency:
  assumes "ci_type (currencyInfo (raw r)) \<in> {''BTC'', ''ISO4217''}"
  shows "pay env (Some r) (Some s) appsSdk =
    (\<lparr>txs = [], trace = [Alert ''not implemented'']\<rparr>, Return)"
proof -
  from assms have erc20: "ci_type (currencyInfo (raw r)) \<noteq> ''ERC20''"
    and eth: "ci_type (currencyInfo (raw r)) \<noteq> ''ETH''"
    by auto
  from assms show ?thesis
    by (auto simp: pay_present seq_def erc20_block_other_kind [OF erc20]
        eth_block_other_kind [OF eth] btc_block_def iso4217_block_def alert_def ret_def
        skip_def)
qed

theorem pay_unsupported_currency_witness:
  "pay (test_env True True) (Some (test_request ''BTC'')) (Some test_safe) (Some test_sdk) =
    (\<lparr>txs = [], trace = [Alert ''not implemented'']\<rparr>, Return)"
  using pay_unsupported_currency [of "test_request ''BTC''" "test_env True True" test_safe
      "Some test_sdk"]
  by (simp add: test_defs)

text \<open>
  A kind outside the four the code knows: the spec asks for a failure of \<^verbatim>\<open>pay\<close>'s own and
  for nothing to be submitted. On the code, no block applies, nothing is alerted, and the
  empty batch is handed to the safe; with an SDK that takes it, \<^verbatim>\<open>pay\<close> ends normally.
\<close>

theorem pay_unrecognized_kind_counterexample:
  "ci_type (currencyInfo (raw (test_request ''DOGE''))) \<notin>
     {''ERC20'', ''ETH'', ''BTC'', ''ISO4217''}
   \<and> pay (test_env True True) (Some (test_request ''DOGE'')) (Some test_safe) (Some test_sdk) =
       (\<lparr>txs = [], trace = [SendTransactions []]\<rparr>, Normal)"
  by (simp add: pay_def erc20_block_def eth_block_def btc_block_def iso4217_block_def
      send_def stmt_defs test_defs)

text \<open>
  C6 (amended). For a request whose kind is none of ERC20, ETH, BTC and ISO4217, \<^verbatim>\<open>pay\<close>
  has no failure of its own: it alerts nothing, calls no oracle, encoder or registry and
  leaves \<^verbatim>\<open>txs\<close> empty. When the SDK is there it hands it the empty batch, and it throws
  exactly when that call throws; when the SDK is absent it ends normally with no call at all.
\<close>

theorem pay_unrecognized_kind:
  assumes "ci_type (currencyInfo (raw r)) \<notin> {''ERC20'', ''ETH'', ''BTC'', ''ISO4217''}"
  shows "pay env (Some r) (Some s) appsSdk =
    (\<lparr>txs = [],
      trace = (case appsSdk of
                 None \<Rightarrow> []
               | Some sendTransactions \<Rightarrow> [SendTransactions []])\<rparr>,
     (case appsSdk of
        None \<Rightarrow> Normal
      | Some sendTransactions \<Rightarrow>
          (case sendTransactions [] of
             Inl e \<Rightarrow> Throw e
           | Inr _ \<Rightarrow> Normal)))"
proof -
  from assms have erc20: "ci_type (currencyInfo (raw r)) \<noteq> ''ERC20''"
    and eth: "ci_type (currencyInfo (raw r)) \<noteq> ''ETH''"
    and btc: "ci_type (currencyInfo (raw r)) \<noteq> ''BTC''"
    and iso: "ci_type (currencyInfo (raw r)) \<noteq> ''ISO4217''"
    by simp_all
  have "pay env (Some r) (Some s) appsSdk = send appsSdk \<lparr>txs = [], trace = []\<rparr>"
    by (simp add: pay_present seq_def erc20_block_other_kind [OF erc20]
        eth_block_other_kind [OF eth] btc_block_other_kind [OF btc]
        iso4217_block_other_kind [OF iso])
  then show ?thesis
    by (simp add: send_def call_def skip_def split: option.split sum.split)
qed

text \<open>The theorem with an SDK that throws on an empty batch: what \<^verbatim>\<open>pay\<close> throws is the
  SDK's error, after the empty batch was handed over.\<close>

theorem pay_unrecognized_kind_witness:
  "pay (test_env True True) (Some (test_request ''LTC'')) (Some test_safe) (Some strict_sdk) =
    (\<lparr>txs = [], trace = [SendTransactions []]\<rparr>, Throw ''no transactions'')"
  using pay_unrecognized_kind [of "test_request ''LTC''" "test_env True True" test_safe
      "Some strict_sdk"]
  by (simp add: test_defs)

text \<open>
  C10. When the parsed request or the safe information is absent, \<^verbatim>\<open>pay\<close> alerts and
  returns: the alert is the whole trace (no oracle is queried), \<^verbatim>\<open>txs\<close> is empty and
  nothing is handed to the safe.
\<close>

theorem pay_absent_returns_early:
  assumes "request = None \<or> safeInfo = None"
  shows "pay env request safeInfo appsSdk =
    (\<lparr>txs = [],
      trace = [Alert (if request = None then ''Request not found''
                      else ''Safe Info not found'')]\<rparr>,
     Return)"
proof (cases request)
  case None
  then show ?thesis
    by (simp add: pay_def stmt_defs)
next
  case (Some r)
  with assms have "safeInfo = None"
    by simp
  with Some show ?thesis
    by (simp add: pay_def stmt_defs)
qed

theorem pay_absent_returns_early_witness:
  "pay (test_env True True) (Some (test_request ''ERC20'')) None (Some test_sdk) =
    (\<lparr>txs = [], trace = [Alert ''Safe Info not found'']\<rparr>, Return)"
  using pay_absent_returns_early [of "Some (test_request ''ERC20'')" None "test_env True True"
      "Some test_sdk"]
  by simp

section \<open>The payer's address\<close>

lemma corr_skip: "corr skip skip"
  by (simp add: corr_def skip_def)

lemma corr_ret: "corr ret ret"
  by (simp add: corr_def ret_def)

lemma corr_alert: "corr (alert m) (alert m)"
  by (simp add: corr_def alert_def agree_def without_oracle_queries_def)

lemma corr_push: "corr (push t) (push t)"
  by (simp add: corr_def push_def agree_def)

lemma corr_send: "corr (send b) (send b)"
  unfolding corr_def
proof (intro allI impI)
  fix st1 st2 :: pay_state
  assume a: "agree st1 st2"
  then have t: "txs st1 = txs st2"
    by (simp add: agree_def)
  from a show "agree (fst (send b st1)) (fst (send b st2)) \<and>
      snd (send b st1) = snd (send b st2)"
    by (simp add: send_def call_def skip_def t agree_def without_oracle_queries_def
        split: option.split sum.split)
qed

lemma corr_seq:
  assumes "corr p1 p2" and "corr q1 q2"
  shows "corr (seq p1 q1) (seq p2 q2)"
  unfolding corr_def
proof (intro allI impI)
  fix st1 st2 :: pay_state
  assume a: "agree st1 st2"
  obtain u1 c1 where p1: "p1 st1 = (u1, c1)" by (cases "p1 st1")
  obtain u2 c2 where p2: "p2 st2 = (u2, c2)" by (cases "p2 st2")
  from assms(1) a have "agree (fst (p1 st1)) (fst (p2 st2)) \<and> snd (p1 st1) = snd (p2 st2)"
    unfolding corr_def by blast
  with p1 p2 have u: "agree u1 u2" and c: "c1 = c2"
    by simp_all
  from assms(2) u have q: "agree (fst (q1 u1)) (fst (q2 u2)) \<and> snd (q1 u1) = snd (q2 u2)"
    unfolding corr_def by blast
  show "agree (fst (seq p1 q1 st1)) (fst (seq p2 q2 st2)) \<and>
        snd (seq p1 q1 st1) = snd (seq p2 q2 st2)"
    using u c p1 p2 q by (cases c2) (simp_all add: seq_def)
qed

text \<open>Two calls with the same result correspond when they are recorded as the same event,
  or both as oracle queries.\<close>

lemma corr_call:
  assumes "is_oracle_query ev1 = is_oracle_query ev2"
    and "is_oracle_query ev1 \<or> ev1 = ev2"
    and "\<And>v. corr (k1 v) (k2 v)"
  shows "corr (call ev1 r k1) (call ev2 r k2)"
  unfolding corr_def
proof (intro allI impI)
  fix st1 st2 :: pay_state
  assume a: "agree st1 st2"
  from a assms(1,2) have b:
    "agree (st1\<lparr>trace := trace st1 @ [ev1]\<rparr>) (st2\<lparr>trace := trace st2 @ [ev2]\<rparr>)"
    by (auto simp: agree_def without_oracle_queries_def)
  show "agree (fst (call ev1 r k1 st1)) (fst (call ev2 r k2 st2)) \<and>
        snd (call ev1 r k1 st1) = snd (call ev2 r k2 st2)"
  proof (cases r)
    case (Inl e)
    with b show ?thesis by (simp add: call_def)
  next
    case (Inr v)
    with b assms(3) [of v] show ?thesis by (simp add: call_def corr_def)
  qed
qed

lemma corr_if:
  assumes "c \<Longrightarrow> corr p1 p2" and "\<not> c \<Longrightarrow> corr q1 q2"
  shows "corr (if c then p1 else q1) (if c then p2 else q2)"
  using assms by simp

lemmas corr_intros =
  corr_if corr_seq corr_call corr_skip corr_ret corr_alert corr_push corr_send

lemma corr_erc20_block:
  assumes "hasSufficientFunds env (raw r) (safeAddress s1) =
           hasSufficientFunds env (raw r) (safeAddress s2)"
    and "hasErc20Approval env (raw r) (safeAddress s1) =
         hasErc20Approval env (raw r) (safeAddress s2)"
  shows "corr (erc20_block env r s1) (erc20_block env r s2)"
  unfolding erc20_block_def assms
  by (intro corr_intros) simp_all

lemma corr_eth_block:
  assumes "hasSufficientFunds env (raw r) (safeAddress s1) =
           hasSufficientFunds env (raw r) (safeAddress s2)"
  shows "corr (eth_block env r s1) (eth_block env r s2)"
  unfolding eth_block_def assms
  by (intro corr_intros) simp_all

lemma corr_btc_block: "corr (btc_block r) (btc_block r)"
  unfolding btc_block_def by (intro corr_intros)

lemma corr_iso4217_block: "corr (iso4217_block r) (iso4217_block r)"
  unfolding iso4217_block_def by (intro corr_intros)

lemma submitted_without_oracle_queries:
  "submitted (without_oracle_queries es) = submitted es"
  by (induction es rule: submitted.induct) (simp_all add: without_oracle_queries_def)

text \<open>
  C8. The payer's address reaches the two oracles only. For one request and two payer
  addresses on which both oracles give the same answers, the two runs of \<^verbatim>\<open>pay\<close> assemble
  the same batch (targets, values, payloads), hand the same batches to the safe, end the same
  way, and make the same calls apart from the oracle queries themselves.
\<close>

theorem pay_payer_address_only_in_oracle_queries:
  assumes "hasSufficientFunds env (raw r) (safeAddress s1) =
           hasSufficientFunds env (raw r) (safeAddress s2)"
    and "hasErc20Approval env (raw r) (safeAddress s1) =
         hasErc20Approval env (raw r) (safeAddress s2)"
  shows "txs (fst (pay env (Some r) (Some s1) appsSdk)) =
         txs (fst (pay env (Some r) (Some s2) appsSdk))
       \<and> submitted (trace (fst (pay env (Some r) (Some s1) appsSdk))) =
         submitted (trace (fst (pay env (Some r) (Some s2) appsSdk)))
       \<and> without_oracle_queries (trace (fst (pay env (Some r) (Some s1) appsSdk))) =
         without_oracle_queries (trace (fst (pay env (Some r) (Some s2) appsSdk)))
       \<and> snd (pay env (Some r) (Some s1) appsSdk) = snd (pay env (Some r) (Some s2) appsSdk)"
proof -
  let ?p = "\<lambda>s. seq (erc20_block env r s) (seq (eth_block env r s)
              (seq (btc_block r) (seq (iso4217_block r) (send appsSdk))))"
  let ?init = "\<lparr>txs = [], trace = []\<rparr>"
  have "corr (?p s1) (?p s2)"
    by (intro corr_seq corr_erc20_block corr_eth_block corr_btc_block corr_iso4217_block
        corr_send assms)
  moreover have "agree ?init ?init"
    by (simp add: agree_def)
  ultimately have ag: "agree (fst (?p s1 ?init)) (fst (?p s2 ?init))"
    and c: "snd (?p s1 ?init) = snd (?p s2 ?init)"
    unfolding corr_def by blast+
  from ag have w: "without_oracle_queries (trace (fst (?p s1 ?init))) =
      without_oracle_queries (trace (fst (?p s2 ?init)))"
    and t: "txs (fst (?p s1 ?init)) = txs (fst (?p s2 ?init))"
    by (simp_all add: agree_def)
  from w have "submitted (without_oracle_queries (trace (fst (?p s1 ?init)))) =
      submitted (without_oracle_queries (trace (fst (?p s2 ?init))))"
    by simp
  then have sub: "submitted (trace (fst (?p s1 ?init))) = submitted (trace (fst (?p s2 ?init)))"
    by (simp only: submitted_without_oracle_queries)
  from t sub w c show ?thesis
    by (simp only: pay_present)
qed

text \<open>Two safes pay the same ERC20 request: the batch is the same, approval first.\<close>

theorem pay_payer_address_only_in_oracle_queries_witness:
  "safeAddress test_safe \<noteq> safeAddress other_safe
   \<and> txs (fst (pay (test_env True False) (Some (test_request ''ERC20'')) (Some test_safe) (Some test_sdk))) =
     txs (fst (pay (test_env True False) (Some (test_request ''ERC20'')) (Some other_safe) (Some test_sdk)))
   \<and> submitted (trace (fst (pay (test_env True False) (Some (test_request ''ERC20''))
       (Some test_safe) (Some test_sdk)))) =
     submitted (trace (fst (pay (test_env True False) (Some (test_request ''ERC20''))
       (Some other_safe) (Some test_sdk))))
   \<and> without_oracle_queries (trace (fst (pay (test_env True False)
       (Some (test_request ''ERC20'')) (Some test_safe) (Some test_sdk)))) =
     without_oracle_queries (trace (fst (pay (test_env True False)
       (Some (test_request ''ERC20'')) (Some other_safe) (Some test_sdk))))
   \<and> snd (pay (test_env True False) (Some (test_request ''ERC20'')) (Some test_safe) (Some test_sdk)) =
     snd (pay (test_env True False) (Some (test_request ''ERC20'')) (Some other_safe) (Some test_sdk))"
proof -
  have f: "hasSufficientFunds (test_env True False) (raw (test_request ''ERC20''))
        (safeAddress test_safe) =
      hasSufficientFunds (test_env True False) (raw (test_request ''ERC20''))
        (safeAddress other_safe)"
    by (simp add: test_env_def)
  have a: "hasErc20Approval (test_env True False) (raw (test_request ''ERC20''))
        (safeAddress test_safe) =
      hasErc20Approval (test_env True False) (raw (test_request ''ERC20''))
        (safeAddress other_safe)"
    by (simp add: test_env_def)
  have d: "safeAddress test_safe \<noteq> safeAddress other_safe"
    by (simp add: test_safe_def other_safe_def)
  from d pay_payer_address_only_in_oracle_queries [OF f a, of "Some test_sdk"] show ?thesis
    by (simp only: simp_thms)
qed

section \<open>Cancelling a request\<close>

text \<open>Before the page is ready nothing is called and the promise is rejected.\<close>

lemma cancel_not_ready:
  assumes "request = None \<or> account = None \<or> account = Some [] \<or> chainId = None
    \<or> chainId = Some 0"
  shows "cancel env request account chainId = notReady"
  using assms by (auto simp: cancel_def split: option.splits)

lemma cancel_succeeds:
  assumes "a \<noteq> []" and "c \<noteq> 0"
    and "cancelRequest env (requestId r) a c = Inr ()"
  shows "cancel env (Some r) (Some a) (Some c) =
    ([CancelRequest (requestId r) a c, Update], update env)"
  using assms by (simp add: cancel_def)

text \<open>After a throw of \<^verbatim>\<open>cancelRequest\<close> the code asks \<^verbatim>\<open>isCancelError\<close>: an error it
  recognises is thrown again and \<^verbatim>\<open>update\<close> is not called; any other error is swallowed and
  \<^verbatim>\<open>update\<close> is called.\<close>

lemma cancel_cancelRequest_throws:
  assumes "a \<noteq> []" and "c \<noteq> 0"
    and "cancelRequest env (requestId r) a c = Inl e"
  shows "cancel env (Some r) (Some a) (Some c) =
    (if isCancelError env e
     then ([CancelRequest (requestId r) a c, IsCancelError e], Inl e)
     else ([CancelRequest (requestId r) a c, IsCancelError e, Update], update env))"
  using assms by (simp add: cancel_def)

text \<open>
  C7. The claim has an error of \<^verbatim>\<open>cancelRequest\<close> thrown again only when \<^verbatim>\<open>isCancelError\<close>
  does not recognise it, and a recognised one suppressed before the request is refreshed.
  The code has the two branches the other way round. With \<^verbatim>\<open>cancelRequest\<close> throwing 4001:
  when \<^verbatim>\<open>isCancelError\<close> recognises it, \<^verbatim>\<open>cancel\<close> throws it again and never calls
  \<^verbatim>\<open>update\<close>; when it does not, \<^verbatim>\<open>cancel\<close> swallows it, calls \<^verbatim>\<open>update\<close> and succeeds.
\<close>

theorem cancel_branches_swapped:
  "cancelRequest (test_cancel_env True) ''01abc'' ''0xab'' 1 = Inl (Thrown 4001)
   \<and> isCancelError (test_cancel_env True) (Thrown 4001)
   \<and> cancel (test_cancel_env True) (Some (test_request ''ETH'')) (Some ''0xab'') (Some 1) =
       ([CancelRequest ''01abc'' ''0xab'' 1, IsCancelError (Thrown 4001)], Inl (Thrown 4001))
   \<and> cancelRequest (test_cancel_env False) ''01abc'' ''0xab'' 1 = Inl (Thrown 4001)
   \<and> \<not> isCancelError (test_cancel_env False) (Thrown 4001)
   \<and> cancel (test_cancel_env False) (Some (test_request ''ETH'')) (Some ''0xab'') (Some 1) =
       ([CancelRequest ''01abc'' ''0xab'' 1, IsCancelError (Thrown 4001), Update], Inr ())"
  by (simp add: cancel_def test_cancel_env_def test_request_def)

section \<open>Comparing addresses\<close>

lemma toLowerCase_Nil_iff: "toLowerCase s = toLowerCase s' \<Longrightarrow> s = [] \<longleftrightarrow> s' = []"
  by (metis toLowerCase_def map_is_Nil_conv)

lemma toLowerCase_char_idem: "toLowerCase_char (toLowerCase_char c) = toLowerCase_char c"
  by (simp add: toLowerCase_char_def)

lemma toLowerCase_idem: "toLowerCase (toLowerCase s) = toLowerCase s"
  by (simp add: toLowerCase_def toLowerCase_char_idem)

text \<open>The comparisons that put both sides in lower case do not see the case of a letter.\<close>

lemma isPaymentAddressSmartContract_case_insensitive:
  assumes "toLowerCase a = toLowerCase a'"
    and "toLowerCase (paymentAddress r) = toLowerCase (paymentAddress r')"
  shows "isPaymentAddressSmartContract (Some a) (Some r) =
         isPaymentAddressSmartContract (Some a') (Some r')"
  using assms toLowerCase_Nil_iff [OF assms(1)]
  by (simp add: isPaymentAddressSmartContract_def)

lemma actions_payer_matches_case_insensitive:
  assumes "payer r = Some p" and "payer r' = Some p'" and "toLowerCase p = toLowerCase p'"
    and "map_option toLowerCase sca = map_option toLowerCase sca'"
    and "map_option toLowerCase acc = map_option toLowerCase acc'"
  shows "actions_payer_matches r sca acc = actions_payer_matches r' sca' acc'"
  using assms toLowerCase_Nil_iff [OF assms(3)]
  by (simp add: actions_payer_matches_def)

text \<open>The four payee and payer flags of \<^verbatim>\<open>Body\<close> put the account or the safe's address in
  lower case and compare it with the request's field as stored: they hold exactly when the
  stored field is the lower-case form of the address.\<close>

lemma isAccountPayee_iff:
  "isAccountPayee (Some a) (Some r) \<longleftrightarrow> a \<noteq> [] \<and> payee r = toLowerCase a"
  by (auto simp: isAccountPayee_def)

lemma isAccountPayer_iff:
  "isAccountPayer (Some a) (Some r) \<longleftrightarrow> a \<noteq> [] \<and> payer r = Some (toLowerCase a)"
  by (auto simp: isAccountPayer_def)

lemma isSmartContractPayee_iff:
  "isSmartContractPayee (Some a) (Some r) \<longleftrightarrow> a \<noteq> [] \<and> payee r = toLowerCase a"
  by (auto simp: isSmartContractPayee_def)

lemma isSmartContractPayer_iff:
  "isSmartContractPayer (Some a) (Some r) \<longleftrightarrow> a \<noteq> [] \<and> payer r = Some (toLowerCase a)"
  by (auto simp: isSmartContractPayer_def)

text \<open>
  C9. The claim is that every comparison of an address ignores the case of its letters. It
  fails in \<^verbatim>\<open>Body\<close>: with the request's payee stored as \<^verbatim>\<open>0xAB\<close>, the account \<^verbatim>\<open>0xAB\<close>, the
  very same string, is not found to be the payee, while against the payee \<^verbatim>\<open>0xab\<close> it is;
  the same holds for the safe's address and for the payer. \<^verbatim>\<open>Actions\<close>, comparing the same
  payer with the same account in lower case on both sides, finds them equal.
\<close>

theorem body_comparisons_case_sensitive:
  "toLowerCase ''0xAB'' = toLowerCase ''0xab''
   \<and> isAccountPayee (Some ''0xAB'') (Some ((test_request ''ETH'')\<lparr>payee := ''0xab''\<rparr>))
   \<and> \<not> isAccountPayee (Some ''0xAB'') (Some ((test_request ''ETH'')\<lparr>payee := ''0xAB''\<rparr>))
   \<and> isSmartContractPayee (Some ''0xAB'') (Some ((test_request ''ETH'')\<lparr>payee := ''0xab''\<rparr>))
   \<and> \<not> isSmartContractPayee (Some ''0xAB'')
         (Some ((test_request ''ETH'')\<lparr>payee := ''0xAB''\<rparr>))
   \<and> isAccountPayer (Some ''0xAB'') (Some ((test_request ''ETH'')\<lparr>payer := Some ''0xab''\<rparr>))
   \<and> \<not> isAccountPayer (Some ''0xAB'')
         (Some ((test_request ''ETH'')\<lparr>payer := Some ''0xAB''\<rparr>))
   \<and> isSmartContractPayer (Some ''0xAB'')
         (Some ((test_request ''ETH'')\<lparr>payer := Some ''0xab''\<rparr>))
   \<and> \<not> isSmartContractPayer (Some ''0xAB'')
         (Some ((test_request ''ETH'')\<lparr>payer := Some ''0xAB''\<rparr>))
   \<and> actions_payer_matches ((test_request ''ETH'')\<lparr>payer := Some ''0xAB''\<rparr>) None
         (Some ''0xAB'')"
  by (simp add: isAccountPayee_def isSmartContractPayee_def isAccountPayer_def
      isSmartContractPayer_def actions_payer_matches_def test_request_def toLowerCase_def
      toLowerCase_char_def char_of_def bit_Suc_0_iff)

end
